theory Spec2Isabelle
  imports Main
begin

section \<open>The data model of json/parser.h\<close>

text \<open>
  A shallow embedding of \<^verbatim>\<open>src/json/parser.h\<close> (namespace \<^verbatim>\<open>vulkan_cpu::json\<close>).
  \<^verbatim>\<open>std::size_t\<close> is modelled as \<open>nat\<close>: the header performs no arithmetic on offsets,
  lines or columns. A \<^verbatim>\<open>std::string\<close> is a \<open>string\<close> (a list of bytes). A pointer that may
  be null is an \<open>option\<close>: \<^verbatim>\<open>std::shared_ptr<const char> contents\<close> is either \<open>None\<close> or
  the bytes it points to, and \<^verbatim>\<open>const source *source\<close> is either \<open>None\<close> or the source it
  refers to (sources are immutable once built, so the referenced value stands for the
  reference).
\<close>

record source =
  file_name :: string
  contents :: "string option"
  contents_size :: nat
  line_start_indexes :: "nat list"

record line_and_index =
  line :: nat
  index :: nat

record line_and_column =
  line :: nat
  column :: nat

record location =
  source :: "source option"
  char_index :: nat

text \<open>
  \<^verbatim>\<open>class parse_error : public std::runtime_error\<close>: the base class holds the message that
  \<^verbatim>\<open>what()\<close> returns, the derived class adds the public member \<^verbatim>\<open>location\<close>.
\<close>

record parse_error =
  what :: string
  location :: location

record parse_options =
  allow_infinity_and_nan :: bool
  allow_explicit_plus_sign_in_mantissa :: bool
  allow_single_quote_strings :: bool
  allow_number_to_start_with_dot :: bool

section \<open>struct source\<close>

definition newline :: char where
  "newline = CHR 0x0A"

definition tab :: char where
  "tab = CHR 0x09"

text \<open>
  Modelled from the spec: \<^verbatim>\<open>source::find_line_start_indexes\<close> is declared in the header
  and its body is not under src/. Spec 4.1: a single forward scan; for every newline byte
  encountered, record the offset of the following byte. \<open>find_lines_from i bs\<close> is the scan
  standing at offset \<open>i\<close> with the bytes \<open>bs\<close> still ahead; the scan covers the first
  \<open>contents_size\<close> bytes.
\<close>

fun find_lines_from :: "nat \<Rightarrow> string \<Rightarrow> nat list" where
  "find_lines_from i [] = []"
| "find_lines_from i (ch # rest) =
     (if ch = newline then (i + 1) # find_lines_from (i + 1) rest
      else find_lines_from (i + 1) rest)"

definition find_line_start_indexes :: "string \<Rightarrow> nat \<Rightarrow> nat list" where
  "find_line_start_indexes contents_in contents_size_in =
     find_lines_from 0 (take contents_size_in contents_in)"

text \<open>The constructors: \<^verbatim>\<open>source()\<close>, \<^verbatim>\<open>source(file_name)\<close>,
  \<^verbatim>\<open>source(file_name, contents, contents_size)\<close> with a shared buffer that may be null, and
  \<^verbatim>\<open>source(file_name, std::string contents_in)\<close>. A null buffer with a positive size is
  outside the third constructor's contract (the scan would read through the null pointer);
  the model scans no bytes there. The two constructors from a \<^verbatim>\<open>std::vector\<close> are not
  modelled: they take \<^verbatim>\<open>contents\<close> from the vector's \<^verbatim>\<open>data()\<close>, which may be null for an
  empty vector, so such a source can have no contents buffer.\<close>

definition source_empty :: source where
  "source_empty =
     \<lparr>file_name = [], contents = None, contents_size = 0, line_start_indexes = []\<rparr>"

definition source_from_name :: "string \<Rightarrow> source" where
  "source_from_name name =
     \<lparr>file_name = name, contents = None, contents_size = 0, line_start_indexes = []\<rparr>"

definition source_from_buffer :: "string \<Rightarrow> string option \<Rightarrow> nat \<Rightarrow> source" where
  "source_from_buffer name buf size_in =
     \<lparr>file_name = name, contents = buf, contents_size = size_in,
      line_start_indexes =
        find_line_start_indexes (case buf of None \<Rightarrow> [] | Some b \<Rightarrow> b) size_in\<rparr>"

definition source_from_string :: "string \<Rightarrow> string \<Rightarrow> source" where
  "source_from_string name contents_in =
     \<lparr>file_name = name, contents = Some contents_in, contents_size = length contents_in,
      line_start_indexes = find_line_start_indexes contents_in (length contents_in)\<rparr>"

text \<open>\<^verbatim>\<open>explicit operator bool() const noexcept { return contents != nullptr; }\<close>\<close>

definition source_bool :: "source \<Rightarrow> bool" where
  "source_bool s = (contents s \<noteq> None)"

definition default_tab_size :: nat where
  "default_tab_size = 8"

text \<open>The bytes of a source: the first \<open>contents_size\<close> bytes of its buffer, none when
  the buffer is absent.\<close>

definition source_bytes :: "source \<Rightarrow> string" where
  "source_bytes s = (case contents s of None \<Rightarrow> [] | Some b \<Rightarrow> take (contents_size s) b)"

text \<open>
  Modelled from the spec: \<^verbatim>\<open>source::get_line_and_start_index\<close> is declared in the header
  and its body is not under src/. Spec 4.1: binary search over \<open>line_start_indexes\<close> for the
  greatest recorded start \<open>\<le> char_index\<close>; if none, the start is offset 0 and the line is 0.
  \<open>search_line starts char_index lo hi\<close> halves the window \<open>[lo, hi)\<close> and returns how many
  recorded starts are \<open>\<le> char_index\<close>, which is the 0-based line number (spec 3).
\<close>

function search_line :: "nat list \<Rightarrow> nat \<Rightarrow> nat \<Rightarrow> nat \<Rightarrow> nat" where
  "search_line starts ci lo hi =
     (if lo < hi then
        (let mid = lo + (hi - lo) div 2 in
         if starts ! mid \<le> ci then search_line starts ci (mid + 1) hi
         else search_line starts ci lo mid)
      else lo)"
  by pat_completeness auto
termination
  by (relation "measure (\<lambda>(starts, ci, lo, hi). hi - lo)") auto

declare search_line.simps [simp del]

definition source_get_line_and_start_index :: "source \<Rightarrow> nat \<Rightarrow> line_and_index" where
  "source_get_line_and_start_index s ci =
     (let starts = line_start_indexes s;
          n = search_line starts ci 0 (length starts)
      in \<lparr>line_and_index.line = n, index = (if n = 0 then 0 else starts ! (n - 1))\<rparr>)"

text \<open>
  Modelled from the spec: \<^verbatim>\<open>source::get_line_and_column\<close> is declared in the header and
  its body is not under src/. Spec 4.1: obtain the line start, then scan forward from that
  start to \<open>char_index\<close> over raw bytes, incrementing the column by 1 per byte except tab
  bytes; a tab at column \<open>c\<close> advances to \<open>((c / tab_size) + 1) * tab_size\<close>, the next
  multiple of \<open>tab_size\<close>. The multiples of \<open>tab_size\<close> are the tab stops when the scan counts
  the line's first byte as column 0 (\<open>column_start\<close>), so the rule is read on that count.
  The column returned is the visual column in the 1-based convention of spec 4.2 and
  spec 8 (\<open>column_base\<close>): one more than the count, so that the byte after a leading tab of
  size 8 is at column 9, as spec 8 has it. The lines stay 0-based (spec 3). The rule
  divides by \<open>tab_size\<close>, so it is stated for \<open>tab_size > 0\<close>.
\<close>

definition column_start :: nat where
  "column_start = 0"

definition column_base :: nat where
  "column_base = 1"

fun scan_column :: "nat \<Rightarrow> nat \<Rightarrow> string \<Rightarrow> nat" where
  "scan_column tab_size c [] = c"
| "scan_column tab_size c (ch # rest) =
     scan_column tab_size
       (if ch = tab then ((c div tab_size) + 1) * tab_size else c + 1) rest"

definition source_get_line_and_column :: "source \<Rightarrow> nat \<Rightarrow> nat \<Rightarrow> line_and_column" where
  "source_get_line_and_column s ci tab_size =
     (let li = source_get_line_and_start_index s ci;
          start = index li
      in \<lparr>line = line_and_index.line li,
          column = column_base + scan_column tab_size column_start
                     (take (ci - start) (drop start (source_bytes s)))\<rparr>)"



section \<open>struct source::line_and_column\<close>

text \<open>
  Modelled from the spec: \<^verbatim>\<open>ast::number_value::append_unsigned_integer_to_string\<close> belongs
  to json.h, which is not under src/. Spec 4.2 has the line and the column formatted as
  \<open>line:column\<close>: the helper appends the decimal digits of the value to the buffer.
\<close>

definition digit_char :: "nat \<Rightarrow> char" where
  "digit_char d = ''0123456789'' ! d"

function unsigned_digits :: "nat \<Rightarrow> string" where
  "unsigned_digits n =
     (if n < 10 then [digit_char n]
      else unsigned_digits (n div 10) @ [digit_char (n mod 10)])"
  by pat_completeness auto
termination
  by (relation "measure id") auto

declare unsigned_digits.simps [simp del]

definition append_unsigned_integer_to_string :: "nat \<Rightarrow> string \<Rightarrow> string" where
  "append_unsigned_integer_to_string v buffer = buffer @ unsigned_digits v"

definition line_and_column_append_to_string :: "line_and_column \<Rightarrow> string \<Rightarrow> string" where
  "line_and_column_append_to_string lc buffer =
     (let buffer1 = append_unsigned_integer_to_string (line lc) buffer;
          buffer2 = buffer1 @ '':''
      in append_unsigned_integer_to_string (column lc) buffer2)"

definition line_and_column_to_string :: "line_and_column \<Rightarrow> string \<Rightarrow> string" where
  "line_and_column_to_string lc buffer = line_and_column_append_to_string lc []"

section \<open>struct location\<close>

definition location_default :: location where
  "location_default = \<lparr>source = None, char_index = 0\<rparr>"

definition location_get_line_and_start_index :: "location \<Rightarrow> line_and_index" where
  "location_get_line_and_start_index loc =
     (case source loc of
        None \<Rightarrow> \<lparr>line_and_index.line = 0, index = 0\<rparr>
      | Some s \<Rightarrow> source_get_line_and_start_index s (char_index loc))"

definition location_get_line_and_column :: "location \<Rightarrow> nat \<Rightarrow> line_and_column" where
  "location_get_line_and_column loc tab_size =
     (case source loc of
        None \<Rightarrow> \<lparr>line = 0, column = 0\<rparr>
      | Some s \<Rightarrow> source_get_line_and_column s (char_index loc) tab_size)"

text \<open>\<^verbatim>\<open>if(!source || source->file_name.empty()) buffer += "<unknown>"; else buffer +=
  source->file_name; buffer += ':'; buffer =
  get_line_and_column(tab_size).append_to_string(std::move(buffer));\<close>\<close>

definition location_append_to_string :: "location \<Rightarrow> string \<Rightarrow> nat \<Rightarrow> string" where
  "location_append_to_string loc buffer tab_size =
     (let buffer1 =
            (case source loc of
               None \<Rightarrow> buffer @ ''<unknown>''
             | Some s \<Rightarrow>
                 if file_name s = [] then buffer @ ''<unknown>'' else buffer @ file_name s);
          buffer2 = buffer1 @ '':''
      in line_and_column_append_to_string (location_get_line_and_column loc tab_size) buffer2)"

text \<open>\<^verbatim>\<open>to_string(std::string buffer = {}, std::size_t tab_size = default_tab_size)\<close> clears the
  buffer and calls \<^verbatim>\<open>append_to_string(std::move(buffer))\<close>: the call names no tab size, so
  the callee's default argument is used.\<close>

definition location_to_string :: "location \<Rightarrow> string \<Rightarrow> nat \<Rightarrow> string" where
  "location_to_string loc buffer tab_size =
     location_append_to_string loc [] default_tab_size"

section \<open>class parse\_error\<close>

text \<open>
  \<^verbatim>\<open>parse_error(json::location location, const std::string &message)
      : runtime_error(location.to_string() + ": " + message) {}\<close>
  In the initializer the name \<^verbatim>\<open>location\<close> is the constructor's parameter. The member
  \<^verbatim>\<open>location\<close> has no initializer and the body is empty, so the member is
  default-constructed by \<^verbatim>\<open>location()\<close>.
\<close>

definition parse_error_new :: "location \<Rightarrow> string \<Rightarrow> parse_error" where
  "parse_error_new loc message =
     \<lparr>what = location_to_string loc [] default_tab_size @ '': '' @ message,
      location = location_default\<rparr>"

section \<open>struct parse\_options\<close>

definition default_options :: parse_options where
  "default_options =
     \<lparr>allow_infinity_and_nan = False, allow_explicit_plus_sign_in_mantissa = False,
      allow_single_quote_strings = False, allow_number_to_start_with_dot = False\<rparr>"

definition relaxed_options :: parse_options where
  "relaxed_options =
     \<lparr>allow_infinity_and_nan = True, allow_explicit_plus_sign_in_mantissa = True,
      allow_single_quote_strings = True, allow_number_to_start_with_dot = True\<rparr>"

section \<open>The parser\<close>

text \<open>
  Modelled from the spec: \<^verbatim>\<open>parse\<close> is declared in the header; its body, the tokenizer
  and the value tree \<^verbatim>\<open>ast::value\<close> of json.h are not under src/. The definitions of this
  section follow spec 4.4 (tokenizer, string and number scanning) and spec 4.5 (the value
  grammar). The tree has the six shapes of spec 6. A number keeps its literal text (the
  conversion to a numeric value belongs to json.h), a string keeps one number per raw byte
  or escaped code point.
\<close>

datatype ast_value =
    Null_value
  | Boolean_value bool
  | Number_value string
  | String_value "nat list"
  | Array "ast_value list"
  | Object "(nat list \<times> ast_value) list"

text \<open>A scanning step either fails at an offset with a message, or yields a result, the
  offset after it and the bytes that remain.\<close>

datatype 'a scan = Failed nat string | Scanned 'a nat string

definition dquote :: char where
  "dquote = CHR 0x22"

definition squote :: char where
  "squote = CHR 0x27"

definition backslash :: char where
  "backslash = CHR 0x5C"

text \<open>Spec 4.4: whitespace skipped is space, tab, carriage return and line feed.\<close>

definition is_whitespace :: "char \<Rightarrow> bool" where
  "is_whitespace ch = (ch = CHR '' '' \<or> ch = tab \<or> ch = CHR 0x0D \<or> ch = newline)"

fun skip_whitespace :: "nat \<Rightarrow> string \<Rightarrow> nat \<times> string" where
  "skip_whitespace pos [] = (pos, [])"
| "skip_whitespace pos (ch # rest) =
     (if is_whitespace ch then skip_whitespace (pos + 1) rest else (pos, ch # rest))"

definition is_digit :: "char \<Rightarrow> bool" where
  "is_digit ch = (ch \<in> set ''0123456789'')"

definition is_control :: "char \<Rightarrow> bool" where
  "is_control ch = ((of_char ch :: nat) < 32)"

text \<open>Spec 4.4, string scanning: the escapes are \<open>\"\<close>, \<open>\\\<close>, \<open>\/\<close>, \<open>\b\<close>, \<open>\f\<close>, \<open>\n\<close>,
  \<open>\r\<close>, \<open>\t\<close> and \<open>\uXXXX\<close> with four hex digits; a high surrogate must be followed at
  once by a low-surrogate escape. Any other escape, a literal control character or the end
  of the buffer inside a string is an error at the offending offset.\<close>

definition hex_digit_value :: "char \<Rightarrow> nat option" where
  "hex_digit_value ch =
     (if ch \<in> set ''0123456789'' then Some (of_char ch - 48)
      else if ch \<in> set ''abcdef'' then Some (of_char ch - 87)
      else if ch \<in> set ''ABCDEF'' then Some (of_char ch - 55)
      else None)"

fun scan_hex :: "nat \<Rightarrow> nat \<Rightarrow> nat \<Rightarrow> string \<Rightarrow> (nat \<times> string) + nat" where
  "scan_hex 0 acc pos bs = Inr acc"
| "scan_hex (Suc k) acc pos [] = Inl (pos, ''unterminated string'')"
| "scan_hex (Suc k) acc pos (ch # rest) =
     (case hex_digit_value ch of
        None \<Rightarrow> Inl (pos, ''invalid escape sequence'')
      | Some d \<Rightarrow> scan_hex k (acc * 16 + d) (pos + 1) rest)"

definition simple_escape :: "char \<Rightarrow> nat option" where
  "simple_escape ch =
     (if ch = dquote then Some 0x22
      else if ch = backslash then Some 0x5C
      else if ch = CHR ''/'' then Some 0x2F
      else if ch = CHR ''b'' then Some 0x08
      else if ch = CHR ''f'' then Some 0x0C
      else if ch = CHR ''n'' then Some 0x0A
      else if ch = CHR ''r'' then Some 0x0D
      else if ch = CHR ''t'' then Some 0x09
      else None)"

text \<open>One escape sequence: \<open>pos\<close> is the offset of the backslash and \<open>bs\<close> the bytes
  after it; the result is the code point and the number of bytes after the backslash that
  the escape takes.\<close>

definition scan_escape :: "nat \<Rightarrow> string \<Rightarrow> (nat \<times> string) + (nat \<times> nat)" where
  "scan_escape pos bs =
     (case bs of
        [] \<Rightarrow> Inl (pos + 1, ''unterminated string'')
      | esc # rest \<Rightarrow>
          if esc = CHR ''u'' then
            (case scan_hex 4 0 (pos + 2) rest of
               Inl err \<Rightarrow> Inl err
             | Inr unit1 \<Rightarrow>
                 if 0xD800 \<le> unit1 \<and> unit1 < 0xDC00 then
                   (if take 2 (drop 4 rest) \<noteq> [backslash, CHR ''u''] then
                      Inl (pos + 6, ''invalid escape sequence'')
                    else
                      (case scan_hex 4 0 (pos + 8) (drop 6 rest) of
                         Inl err \<Rightarrow> Inl err
                       | Inr unit2 \<Rightarrow>
                           if 0xDC00 \<le> unit2 \<and> unit2 < 0xE000 then
                             Inr (0x10000 + (unit1 - 0xD800) * 0x400 + (unit2 - 0xDC00), 11)
                           else Inl (pos + 6, ''invalid escape sequence'')))
                 else Inr (unit1, 5))
          else
            (case simple_escape esc of
               None \<Rightarrow> Inl (pos + 1, ''invalid escape sequence'')
             | Some c \<Rightarrow> Inr (c, 1)))"

fun scan_string_chars :: "char \<Rightarrow> nat list \<Rightarrow> nat \<Rightarrow> string \<Rightarrow> (nat list) scan" where
  "scan_string_chars quote acc pos [] = Failed pos ''unterminated string''"
| "scan_string_chars quote acc pos (ch # rest) =
     (if ch = quote then Scanned acc (pos + 1) rest
      else if is_control ch then Failed pos ''unterminated string''
      else if ch \<noteq> backslash then scan_string_chars quote (acc @ [of_char ch]) (pos + 1) rest
      else
        (case scan_escape pos rest of
           Inl (e, m) \<Rightarrow> Failed e m
         | Inr (c, k) \<Rightarrow> scan_string_chars quote (acc @ [c]) (pos + 1 + k) (drop k rest)))"

text \<open>Spec 4.4: the opening quote is \<open>"\<close> always, or also \<open>'\<close> when
  \<open>allow_single_quote_strings\<close>; the closing quote is the same character.\<close>

definition is_string_start :: "parse_options \<Rightarrow> char \<Rightarrow> bool" where
  "is_string_start options ch =
     (ch = dquote \<or> (allow_single_quote_strings options \<and> ch = squote))"

definition scan_string :: "nat \<Rightarrow> string \<Rightarrow> (nat list) scan" where
  "scan_string pos bs =
     (case bs of
        [] \<Rightarrow> Failed pos ''premature end of input''
      | quote # rest \<Rightarrow> scan_string_chars quote [] (pos + 1) rest)"

text \<open>Spec 4.4, number scanning, left to right: an optional \<open>-\<close>, or \<open>+\<close> only under
  \<open>allow_explicit_plus_sign_in_mantissa\<close>; an integer part that is a single \<open>0\<close> or a
  non-zero digit followed by digits, or empty before a fraction under
  \<open>allow_number_to_start_with_dot\<close>; an optional fraction of \<open>.\<close> and one or more digits; an
  optional exponent of \<open>e\<close> or \<open>E\<close>, an optional sign and one or more digits. Under
  \<open>allow_infinity_and_nan\<close> the literals \<open>Infinity\<close>, \<open>-Infinity\<close> and \<open>NaN\<close> are checked first.
  A malformed sequence is an error at the first offending byte.\<close>

fun scan_digits :: "nat \<Rightarrow> string \<Rightarrow> nat \<times> string" where
  "scan_digits pos [] = (pos, [])"
| "scan_digits pos (ch # rest) =
     (if is_digit ch then scan_digits (pos + 1) rest else (pos, ch # rest))"

fun expect_literal :: "string \<Rightarrow> nat \<Rightarrow> string \<Rightarrow> (nat \<times> string) + (nat \<times> string)" where
  "expect_literal [] pos bs = Inr (pos, bs)"
| "expect_literal (l # ls) pos [] = Inl (pos, ''premature end of input'')"
| "expect_literal (l # ls) pos (ch # rest) =
     (if ch = l then expect_literal ls (pos + 1) rest else Inl (pos, ''unexpected token''))"

definition starts_with :: "string \<Rightarrow> string \<Rightarrow> bool" where
  "starts_with lit bs = (take (length lit) bs = lit)"

definition scan_sign :: "parse_options \<Rightarrow> nat \<Rightarrow> string \<Rightarrow> (nat \<times> string) + (nat \<times> string)" where
  "scan_sign options pos bs =
     (case bs of
        [] \<Rightarrow> Inl (pos, ''premature end of input'')
      | ch # rest \<Rightarrow>
          if ch = CHR ''-'' then Inr (pos + 1, rest)
          else if ch = CHR ''+'' then
            (if allow_explicit_plus_sign_in_mantissa options then Inr (pos + 1, rest)
             else Inl (pos, ''explicit plus sign is not allowed''))
          else Inr (pos, bs))"

definition scan_integer_part :: "parse_options \<Rightarrow> nat \<Rightarrow> string \<Rightarrow> (nat \<times> string) + (nat \<times> string)" where
  "scan_integer_part options pos bs =
     (case bs of
        [] \<Rightarrow> Inl (pos, ''premature end of input'')
      | ch # rest \<Rightarrow>
          if ch = CHR ''0'' then Inr (pos + 1, rest)
          else if is_digit ch then Inr (scan_digits (pos + 1) rest)
          else if ch = CHR ''.'' then
            (if allow_number_to_start_with_dot options then Inr (pos, bs)
             else Inl (pos, ''number is not allowed to start with a dot''))
          else Inl (pos, ''invalid number literal''))"

definition scan_digits1 :: "nat \<Rightarrow> string \<Rightarrow> (nat \<times> string) + (nat \<times> string)" where
  "scan_digits1 pos bs =
     (case bs of
        [] \<Rightarrow> Inl (pos, ''premature end of input'')
      | ch # rest \<Rightarrow>
          if is_digit ch then Inr (scan_digits (pos + 1) rest)
          else Inl (pos, ''invalid number literal''))"

definition scan_fraction :: "nat \<Rightarrow> string \<Rightarrow> (nat \<times> string) + (nat \<times> string)" where
  "scan_fraction pos bs =
     (case bs of
        [] \<Rightarrow> Inr (pos, bs)
      | ch # rest \<Rightarrow> if ch = CHR ''.'' then scan_digits1 (pos + 1) rest else Inr (pos, bs))"

definition scan_exponent :: "nat \<Rightarrow> string \<Rightarrow> (nat \<times> string) + (nat \<times> string)" where
  "scan_exponent pos bs =
     (case bs of
        [] \<Rightarrow> Inr (pos, bs)
      | ch # rest \<Rightarrow>
          if ch = CHR ''e'' \<or> ch = CHR ''E'' then
            (case rest of
               [] \<Rightarrow> Inl (pos + 1, ''premature end of input'')
             | sg # rest1 \<Rightarrow>
                 if sg = CHR ''+'' \<or> sg = CHR ''-'' then scan_digits1 (pos + 2) rest1
                 else scan_digits1 (pos + 1) rest)
          else Inr (pos, bs))"

definition scan_number :: "parse_options \<Rightarrow> nat \<Rightarrow> string \<Rightarrow> ast_value scan" where
  "scan_number options pos bs =
     (if allow_infinity_and_nan options \<and> starts_with ''Infinity'' bs then
        Scanned (Number_value ''Infinity'') (pos + 8) (drop 8 bs)
      else if allow_infinity_and_nan options \<and> starts_with ''-Infinity'' bs then
        Scanned (Number_value ''-Infinity'') (pos + 9) (drop 9 bs)
      else if allow_infinity_and_nan options \<and> starts_with ''NaN'' bs then
        Scanned (Number_value ''NaN'') (pos + 3) (drop 3 bs)
      else
        (case scan_sign options pos bs of
           Inl (e, m) \<Rightarrow> Failed e m
         | Inr (p1, bs1) \<Rightarrow>
             (case scan_integer_part options p1 bs1 of
                Inl (e, m) \<Rightarrow> Failed e m
              | Inr (p2, bs2) \<Rightarrow>
                  (case (if p2 = p1 then scan_digits1 (p2 + 1) (drop 1 bs2)
                         else scan_fraction p2 bs2) of
                     Inl (e, m) \<Rightarrow> Failed e m
                   | Inr (p3, bs3) \<Rightarrow>
                       (case scan_exponent p3 bs3 of
                          Inl (e, m) \<Rightarrow> Failed e m
                        | Inr (p4, bs4) \<Rightarrow>
                            Scanned (Number_value (take (p4 - pos) bs)) p4 bs4)))))"

definition is_number_start :: "char \<Rightarrow> bool" where
  "is_number_start ch =
     (is_digit ch \<or> ch = CHR ''-'' \<or> ch = CHR ''+'' \<or> ch = CHR ''.''
      \<or> ch = CHR ''I'' \<or> ch = CHR ''N'')"

text \<open>Spec 4.4 and 4.5: a value that is not an array or an object is chosen by its first
  byte: a string, one of the keywords \<open>true\<close>, \<open>false\<close>, \<open>null\<close>, or a number.\<close>

definition scan_keyword :: "string \<Rightarrow> ast_value \<Rightarrow> nat \<Rightarrow> string \<Rightarrow> ast_value scan" where
  "scan_keyword lit v pos bs =
     (case expect_literal lit pos bs of
        Inl (e, m) \<Rightarrow> Failed e m
      | Inr (p, rest) \<Rightarrow> Scanned v p rest)"

definition scan_scalar :: "parse_options \<Rightarrow> nat \<Rightarrow> string \<Rightarrow> ast_value scan" where
  "scan_scalar options pos bs =
     (case bs of
        [] \<Rightarrow> Failed pos ''premature end of input''
      | ch # rest \<Rightarrow>
          if is_string_start options ch then
            (case scan_string pos bs of
               Failed e m \<Rightarrow> Failed e m
             | Scanned s p r \<Rightarrow> Scanned (String_value s) p r)
          else if ch = squote then Failed pos ''single-quoted string is not allowed''
          else if ch = CHR ''t'' then scan_keyword ''true'' (Boolean_value True) pos bs
          else if ch = CHR ''f'' then scan_keyword ''false'' (Boolean_value False) pos bs
          else if ch = CHR ''n'' then scan_keyword ''null'' Null_value pos bs
          else if (ch = CHR ''I'' \<or> ch = CHR ''N'') \<and> \<not> allow_infinity_and_nan options then
            Failed pos ''Infinity and NaN are not allowed''
          else if is_number_start ch then scan_number options pos bs
          else Failed pos ''unexpected token'')"

text \<open>
  Spec 4.5: \<open>value := object | array | string | number | true | false | null\<close>,
  \<open>object := { (member (, member)*)? }\<close>, \<open>member := string : value\<close>,
  \<open>array := [ (value (, value)*)? ]\<close>. Each nonterminal skips leading whitespace, looks
  at the next byte and fails at the current offset on a mismatch. The recursion of the
  descent is counted by a fuel argument: each call spends one unit, \<open>None\<close> is running out
  of it.
\<close>

fun parse_value :: "nat \<Rightarrow> parse_options \<Rightarrow> nat \<Rightarrow> string \<Rightarrow> ast_value scan option"
  and parse_elements ::
    "nat \<Rightarrow> parse_options \<Rightarrow> ast_value list \<Rightarrow> nat \<Rightarrow> string \<Rightarrow> ast_value scan option"
  and parse_members ::
    "nat \<Rightarrow> parse_options \<Rightarrow> (nat list \<times> ast_value) list \<Rightarrow> nat \<Rightarrow> string
       \<Rightarrow> ast_value scan option"
where
  "parse_value 0 options pos bs = None"
| "parse_value (Suc fuel) options pos bs =
     (case skip_whitespace pos bs of
        (p, []) \<Rightarrow> Some (Failed p ''premature end of input'')
      | (p, ch # rest) \<Rightarrow>
          if ch = CHR ''['' then
            (case skip_whitespace (p + 1) rest of
               (p1, []) \<Rightarrow> Some (Failed p1 ''unterminated array'')
             | (p1, ch1 # rest1) \<Rightarrow>
                 if ch1 = CHR '']'' then Some (Scanned (Array []) (p1 + 1) rest1)
                 else parse_elements fuel options [] p1 (ch1 # rest1))
          else if ch = CHR ''{'' then
            (case skip_whitespace (p + 1) rest of
               (p1, []) \<Rightarrow> Some (Failed p1 ''unterminated object'')
             | (p1, ch1 # rest1) \<Rightarrow>
                 if ch1 = CHR ''}'' then Some (Scanned (Object []) (p1 + 1) rest1)
                 else parse_members fuel options [] p1 (ch1 # rest1))
          else Some (scan_scalar options p (ch # rest)))"
| "parse_elements 0 options acc pos bs = None"
| "parse_elements (Suc fuel) options acc pos bs =
     (case parse_value fuel options pos bs of
        None \<Rightarrow> None
      | Some (Failed e m) \<Rightarrow> Some (Failed e m)
      | Some (Scanned v p rest) \<Rightarrow>
          (case skip_whitespace p rest of
             (p1, []) \<Rightarrow> Some (Failed p1 ''unterminated array'')
           | (p1, ch # rest1) \<Rightarrow>
               if ch = CHR '','' then parse_elements fuel options (acc @ [v]) (p1 + 1) rest1
               else if ch = CHR '']'' then Some (Scanned (Array (acc @ [v])) (p1 + 1) rest1)
               else Some (Failed p1 ''missing comma or closing bracket'')))"
| "parse_members 0 options acc pos bs = None"
| "parse_members (Suc fuel) options acc pos bs =
     (case skip_whitespace pos bs of
        (p, []) \<Rightarrow> Some (Failed p ''unterminated object'')
      | (p, ch # rest) \<Rightarrow>
          if \<not> is_string_start options ch then Some (Failed p ''missing member name'')
          else
            (case scan_string p (ch # rest) of
               Failed e m \<Rightarrow> Some (Failed e m)
             | Scanned key p1 rest1 \<Rightarrow>
                 (case skip_whitespace p1 rest1 of
                    (p2, []) \<Rightarrow> Some (Failed p2 ''unterminated object'')
                  | (p2, ch2 # rest2) \<Rightarrow>
                      if ch2 \<noteq> CHR '':'' then Some (Failed p2 ''missing colon'')
                      else
                        (case parse_value fuel options (p2 + 1) rest2 of
                           None \<Rightarrow> None
                         | Some (Failed e m) \<Rightarrow> Some (Failed e m)
                         | Some (Scanned v p3 rest3) \<Rightarrow>
                             (case skip_whitespace p3 rest3 of
                                (p4, []) \<Rightarrow> Some (Failed p4 ''unterminated object'')
                              | (p4, ch4 # rest4) \<Rightarrow>
                                  if ch4 = CHR '','' then
                                    parse_members fuel options (acc @ [(key, v)]) (p4 + 1) rest4
                                  else if ch4 = CHR ''}'' then
                                    Some (Scanned (Object (acc @ [(key, v)])) (p4 + 1) rest4)
                                  else Some (Failed p4 ''missing comma or closing brace''))))))"

text \<open>
  \<^verbatim>\<open>ast::value parse(const source *source, parse_options options)\<close>: the value, or the
  \<^verbatim>\<open>parse_error\<close> thrown, built by the constructor of the header from the location of the
  offending offset (spec 2). Anything but the end of the buffer after the top-level value
  is an error. Every call of the descent consumes a byte before it recurses, and an array
  or an object spends two units on its first byte, so the fuel \<open>2 * length bs + 1\<close> covers
  the buffer (\<open>parse_returns\<close> below).
\<close>

definition parse :: "source \<Rightarrow> parse_options \<Rightarrow> (parse_error + ast_value) option" where
  "parse src options =
     (let bs = source_bytes src in
      case parse_value (2 * length bs + 1) options 0 bs of
        None \<Rightarrow> None
      | Some (Failed e m) \<Rightarrow>
          Some (Inl (parse_error_new \<lparr>source = Some src, char_index = e\<rparr> m))
      | Some (Scanned v p rest) \<Rightarrow>
          (case skip_whitespace p rest of
             (p1, []) \<Rightarrow> Some (Inr v)
           | (p1, ch # rest1) \<Rightarrow>
               Some (Inl (parse_error_new \<lparr>source = Some src, char_index = p1\<rparr>
                            ''trailing input after a complete value''))))"

text \<open>A successful step leaves fewer bytes than it was given.\<close>

definition shorter :: "'a scan \<Rightarrow> string \<Rightarrow> bool" where
  "shorter r bs = (case r of Failed e m \<Rightarrow> True | Scanned v p rest \<Rightarrow> length rest < length bs)"

section \<open>Facts about the line index and the column scan\<close>

text \<open>The scan for line starts, in closed form: the successor of every offset that holds a
  newline, in increasing order.\<close>

lemma upt_0_Suc_shift: "[0..<Suc n] = 0 # map Suc [0..<n]"
  by (simp add: upt_conv_Cons map_Suc_upt del: upt_Suc)

lemma find_lines_from_eq:
  "find_lines_from i bs = map (\<lambda>j. i + j + 1) (filter (\<lambda>j. bs ! j = newline) [0..<length bs])"
proof (induction bs arbitrary: i)
  case Nil
  show ?case by simp
next
  case (Cons ch rest)
  show ?case
    by (simp add: upt_0_Suc_shift filter_map comp_def Cons.IH del: upt_Suc)
qed








lemma find_lines_from_sorted: "sorted_wrt (<) (find_lines_from i bs)"
  by (simp add: find_lines_from_eq sorted_wrt_map sorted_wrt_filter)

lemma find_lines_from_set:
  "set (find_lines_from 0 bs) = {Suc j | j. j < length bs \<and> bs ! j = newline}"
  by (auto simp: find_lines_from_eq)



lemma search_line_done: "\<not> lo < hi \<Longrightarrow> search_line xs ci lo hi = lo"
  by (subst search_line.simps) simp


lemma unsigned_digits_small: "n < 10 \<Longrightarrow> unsigned_digits n = [digit_char n]"
  by (subst unsigned_digits.simps) simp

lemmas scanner_defs =
  parse_def source_bytes_def source_from_string_def default_options_def relaxed_options_def
  scan_scalar_def scan_number_def scan_sign_def scan_integer_part_def scan_digits1_def
  scan_fraction_def scan_exponent_def scan_string_def scan_keyword_def starts_with_def
  is_string_start_def is_number_start_def is_digit_def is_whitespace_def is_control_def
  dquote_def squote_def backslash_def tab_def newline_def Let_def

section \<open>The descent returns\<close>

text \<open>Every scanning step that succeeds consumes at least one byte, so the fuel that
  \<open>parse\<close> supplies is never used up: \<open>parse\<close> returns a value or an error on every source.\<close>

lemma skip_whitespace_length:
  "skip_whitespace pos bs = (p, rest) \<Longrightarrow> length rest \<le> length bs"
  by (induction pos bs rule: skip_whitespace.induct) (auto split: if_splits)

lemma scan_digits_length:
  "scan_digits pos bs = (p, rest) \<Longrightarrow> length rest \<le> length bs \<and> pos \<le> p"
  by (induction pos bs rule: scan_digits.induct) (auto split: if_splits)

lemma expect_literal_length:
  "expect_literal lit pos bs = Inr (p, rest) \<Longrightarrow> length rest + length lit = length bs"
  by (induction lit pos bs rule: expect_literal.induct) (auto split: if_splits)

lemma scan_string_chars_shorter:
  "scan_string_chars quote acc pos bs = Scanned s p rest \<Longrightarrow> length rest < length bs"
proof (induction quote acc pos bs rule: scan_string_chars.induct)
  case (1 quote acc pos)
  then show ?case by simp
next
  case (2 quote acc pos ch rest')
  show ?case
  proof (cases "ch = quote")
    case True
    with "2.prems" show ?thesis by simp
  next
    case nq: False
    show ?thesis
    proof (cases "is_control ch")
      case True
      with nq "2.prems" show ?thesis by simp
    next
      case nc: False
      show ?thesis
      proof (cases "ch = backslash")
        case False
        with nq nc "2.prems" "2.IH"(1) show ?thesis by fastforce
      next
        case True
        show ?thesis
        proof (cases "scan_escape pos rest'")
          case (Inl err)
          with nq nc True "2.prems" show ?thesis by (cases err) simp
        next
          case (Inr ck)
          obtain c k where ck: "ck = (c, k)" by (cases ck)
          from nq nc True "2.prems" Inr ck
          have "scan_string_chars quote (acc @ [c]) (pos + 1 + k) (drop k rest') = Scanned s p rest"
            by simp
          from "2.IH"(2) [OF nq nc _ Inr ck [symmetric] this] True
          show ?thesis by simp
        qed
      qed
    qed
  qed
qed

lemma scan_string_shorter:
  "scan_string pos bs = Scanned s p rest \<Longrightarrow> length rest < length bs"
  by (auto simp: scan_string_def split: list.splits dest!: scan_string_chars_shorter)

lemma scan_digits1_shorter:
  "scan_digits1 pos bs = Inr (p, rest) \<Longrightarrow> length rest < length bs"
  by (auto simp: scan_digits1_def split: list.splits if_splits dest!: scan_digits_length)

lemma scan_sign_length:
  "scan_sign options pos bs = Inr (p, rest) \<Longrightarrow> length rest \<le> length bs"
  by (auto simp: scan_sign_def split: list.splits if_splits)

lemma scan_integer_part_length:
  "scan_integer_part options pos bs = Inr (p, rest) \<Longrightarrow>
     length rest \<le> length bs \<and> (p \<noteq> pos \<longrightarrow> length rest < length bs)"
  by (auto simp: scan_integer_part_def split: list.splits if_splits dest!: scan_digits_length)

lemma scan_fraction_length:
  "scan_fraction pos bs = Inr (p, rest) \<Longrightarrow> length rest \<le> length bs"
  by (auto simp: scan_fraction_def split: list.splits if_splits dest!: scan_digits1_shorter)

lemma scan_exponent_length:
  "scan_exponent pos bs = Inr (p, rest) \<Longrightarrow> length rest \<le> length bs"
  by (auto simp: scan_exponent_def split: list.splits if_splits dest!: scan_digits1_shorter)


lemma scan_number_shorter:
  assumes "scan_number options pos bs = Scanned v p rest"
  shows "length rest < length bs"
proof (cases "allow_infinity_and_nan options \<and>
    (starts_with ''Infinity'' bs \<or> starts_with ''-Infinity'' bs \<or> starts_with ''NaN'' bs)")
  case True
  then have "0 < length bs" by (auto simp: starts_with_def)
  with True assms show ?thesis
    by (auto simp: scan_number_def split: if_splits)
next
  case False
  then obtain p1 bs1 p2 bs2 p3 bs3 where
    sign: "scan_sign options pos bs = Inr (p1, bs1)" and
    int: "scan_integer_part options p1 bs1 = Inr (p2, bs2)" and
    frac: "(if p2 = p1 then scan_digits1 (p2 + 1) (drop 1 bs2) else scan_fraction p2 bs2) =
             Inr (p3, bs3)" and
    exp: "scan_exponent p3 bs3 = Inr (p, rest)"
    using assms
    by (auto simp: scan_number_def split: if_splits sum.splits prod.splits)
  have 1: "length bs1 \<le> length bs"
    using sign by (rule scan_sign_length)
  have 2: "length bs2 \<le> length bs1" "p2 \<noteq> p1 \<Longrightarrow> length bs2 < length bs1"
    using scan_integer_part_length [OF int] by auto
  have 3: "length bs3 < length bs1"
  proof (cases "p2 = p1")
    case True
    with frac have "length bs3 < length (drop 1 bs2)"
      by (auto dest: scan_digits1_shorter)
    with 2(1) show ?thesis by simp
  next
    case False
    with frac have "length bs3 \<le> length bs2"
      by (auto dest: scan_fraction_length)
    with 2(2) [OF False] show ?thesis by simp
  qed
  have "length rest \<le> length bs3"
    using exp by (rule scan_exponent_length)
  with 1 3 show ?thesis by simp
qed

lemma scan_keyword_shorter:
  assumes "lit \<noteq> []" and "scan_keyword lit v pos bs = Scanned w p rest"
  shows "length rest < length bs"
proof -
  from assms(2) have "expect_literal lit pos bs = Inr (p, rest)"
    by (auto simp: scan_keyword_def split: sum.splits prod.splits)
  then have "length rest + length lit = length bs"
    by (rule expect_literal_length)
  moreover have "0 < length lit"
    using assms(1) by simp
  ultimately show ?thesis by linarith
qed

lemma scan_scalar_shorter: "shorter (scan_scalar options pos bs) bs"
proof (cases "scan_scalar options pos bs")
  case (Failed e m)
  then show ?thesis by (simp add: shorter_def)
next
  case (Scanned v p rest)
  have kw: "\<And>lit w. lit \<noteq> [] \<Longrightarrow> scan_keyword lit w pos bs = Scanned v p rest \<Longrightarrow>
      length rest < length bs"
    by (rule scan_keyword_shorter)
  have "length rest < length bs"
    using Scanned kw [of "''true''"] kw [of "''false''"] kw [of "''null''"]
    by (auto simp: scan_scalar_def split: list.splits if_splits scan.splits
        dest: scan_string_shorter scan_number_shorter)
  with Scanned show ?thesis by (simp add: shorter_def)
qed


lemma shorter_mono: "shorter r bs' \<Longrightarrow> length bs' \<le> length bs \<Longrightarrow> shorter r bs"
  by (auto simp: shorter_def split: scan.splits)

lemma descent_returns:
  "(\<forall>pos bs. 2 * length bs + 1 \<le> n \<longrightarrow>
      (\<exists>r. parse_value n options pos bs = Some r \<and> shorter r bs))
   \<and> (\<forall>acc pos bs. 2 * length bs + 2 \<le> n \<longrightarrow>
      (\<exists>r. parse_elements n options acc pos bs = Some r \<and> shorter r bs))
   \<and> (\<forall>acc pos bs. 2 * length bs + 2 \<le> n \<longrightarrow>
      (\<exists>r. parse_members n options acc pos bs = Some r \<and> shorter r bs))"
proof (induction n)
  case 0
  show ?case by simp
next
  case (Suc n)
  then have V: "\<And>pos bs. 2 * length bs + 1 \<le> n \<Longrightarrow>
      \<exists>r. parse_value n options pos bs = Some r \<and> shorter r bs"
    and E: "\<And>acc pos bs. 2 * length bs + 2 \<le> n \<Longrightarrow>
      \<exists>r. parse_elements n options acc pos bs = Some r \<and> shorter r bs"
    and M: "\<And>acc pos bs. 2 * length bs + 2 \<le> n \<Longrightarrow>
      \<exists>r. parse_members n options acc pos bs = Some r \<and> shorter r bs"
    by blast+
  have "\<exists>r. parse_value (Suc n) options pos bs = Some r \<and> shorter r bs"
    if fuel: "2 * length bs + 1 \<le> Suc n" for pos bs
  proof -
    obtain p bs1 where ws: "skip_whitespace pos bs = (p, bs1)"
      by (cases "skip_whitespace pos bs")
    have l1: "length bs1 \<le> length bs"
      using ws by (rule skip_whitespace_length)
    show ?thesis
    proof (cases bs1)
      case Nil
      with ws show ?thesis by (simp add: shorter_def)
    next
      case (Cons ch rest)
      obtain p1 bs2 where ws2: "skip_whitespace (p + 1) rest = (p1, bs2)"
        by (cases "skip_whitespace (p + 1) rest")
      have l2: "length bs2 < length bs"
        using skip_whitespace_length [OF ws2] l1 Cons by simp
      have inner: "2 * length bs2 + 2 \<le> n"
        using l2 fuel by linarith
      consider (array) "ch = CHR ''[''" | (object) "ch \<noteq> CHR ''[''" "ch = CHR ''{''"
        | (scalar) "ch \<noteq> CHR ''[''" "ch \<noteq> CHR ''{''"
        by blast
      then show ?thesis
      proof cases
        case array
        show ?thesis
        proof (cases bs2)
          case Nil
          with ws Cons array ws2 show ?thesis by (simp add: shorter_def)
        next
          case inner_Cons: (Cons ch1 rest1)
          show ?thesis
          proof (cases "ch1 = CHR '']''")
            case True
            with ws Cons array ws2 inner_Cons l2 show ?thesis by (simp add: shorter_def)
          next
            case False
            from E [OF inner] obtain r where
              r: "parse_elements n options [] p1 bs2 = Some r" "shorter r bs2"
              by blast
            have "shorter r bs"
              using r(2) l2 by (auto intro: shorter_mono)
            with ws Cons array ws2 inner_Cons False r(1) show ?thesis by simp
          qed
        qed
      next
        case object
        show ?thesis
        proof (cases bs2)
          case Nil
          with ws Cons object ws2 show ?thesis by (simp add: shorter_def)
        next
          case inner_Cons: (Cons ch1 rest1)
          show ?thesis
          proof (cases "ch1 = CHR ''}''")
            case True
            with ws Cons object ws2 inner_Cons l2 show ?thesis by (simp add: shorter_def)
          next
            case False
            from M [OF inner] obtain r where
              r: "parse_members n options [] p1 bs2 = Some r" "shorter r bs2"
              by blast
            have "shorter r bs"
              using r(2) l2 by (auto intro: shorter_mono)
            with ws Cons object ws2 inner_Cons False r(1) show ?thesis by simp
          qed
        qed
      next
        case scalar
        have "shorter (scan_scalar options p bs1) bs"
          using scan_scalar_shorter l1 by (rule shorter_mono)
        with ws Cons scalar show ?thesis by simp
      qed
    qed
  qed
  moreover
  have "\<exists>r. parse_elements (Suc n) options acc pos bs = Some r \<and> shorter r bs"
    if fuel: "2 * length bs + 2 \<le> Suc n" for acc pos bs
  proof -
    have "2 * length bs + 1 \<le> n"
      using fuel by simp
    from V [OF this] obtain r where
      r: "parse_value n options pos bs = Some r" "shorter r bs"
      by blast
    show ?thesis
    proof (cases r)
      case (Failed e m)
      with r(1) show ?thesis by (simp add: shorter_def)
    next
      case (Scanned v p rest)
      have l0: "length rest < length bs"
        using r(2) Scanned by (simp add: shorter_def)
      obtain p1 bs1 where ws: "skip_whitespace p rest = (p1, bs1)"
        by (cases "skip_whitespace p rest")
      have l1: "length bs1 < length bs"
        using skip_whitespace_length [OF ws] l0 by simp
      show ?thesis
      proof (cases bs1)
        case Nil
        with r(1) Scanned ws show ?thesis by (simp add: shorter_def)
      next
        case (Cons ch rest1)
        have l2: "length rest1 < length bs" "2 * length rest1 + 2 \<le> n"
          using l1 Cons fuel by auto
        consider (comma) "ch = CHR '',''" | (close) "ch \<noteq> CHR '',''" "ch = CHR '']''"
          | (other) "ch \<noteq> CHR '',''" "ch \<noteq> CHR '']''"
          by blast
        then show ?thesis
        proof cases
          case comma
          from E [OF l2(2)] obtain r' where
            r': "parse_elements n options (acc @ [v]) (p1 + 1) rest1 = Some r'" "shorter r' rest1"
            by blast
          have "shorter r' bs"
            using r'(2) l2(1) by (auto intro: shorter_mono)
          with r(1) Scanned ws Cons comma r'(1) show ?thesis by simp
        next
          case close
          with r(1) Scanned ws Cons l2(1) show ?thesis by (simp add: shorter_def)
        next
          case other
          with r(1) Scanned ws Cons show ?thesis by (simp add: shorter_def)
        qed
      qed
    qed
  qed
  moreover
  have "\<exists>r. parse_members (Suc n) options acc pos bs = Some r \<and> shorter r bs"
    if fuel: "2 * length bs + 2 \<le> Suc n" for acc pos bs
  proof -
    obtain p bs1 where ws: "skip_whitespace pos bs = (p, bs1)"
      by (cases "skip_whitespace pos bs")
    have l1: "length bs1 \<le> length bs"
      using ws by (rule skip_whitespace_length)
    show ?thesis
    proof (cases bs1)
      case Nil
      with ws show ?thesis by (simp add: shorter_def)
    next
      case (Cons ch rest)
      show ?thesis
      proof (cases "is_string_start options ch")
        case False
        with ws Cons show ?thesis by (simp add: shorter_def)
      next
        case start: True
        show ?thesis
        proof (cases "scan_string p (ch # rest)")
          case (Failed e m)
          with ws Cons start show ?thesis by (simp add: shorter_def)
        next
          case key: (Scanned k p1 rest1)
          have l2: "length rest1 < length bs"
            using scan_string_shorter [OF key] l1 Cons by simp
          obtain p2 bs2 where ws2: "skip_whitespace p1 rest1 = (p2, bs2)"
            by (cases "skip_whitespace p1 rest1")
          have l3: "length bs2 < length bs"
            using skip_whitespace_length [OF ws2] l2 by simp
          show ?thesis
          proof (cases bs2)
            case Nil
            with ws Cons start key ws2 show ?thesis by (simp add: shorter_def)
          next
            case colon_Cons: (Cons ch2 rest2)
            show ?thesis
            proof (cases "ch2 = CHR '':''")
              case False
              with ws Cons start key ws2 colon_Cons show ?thesis by (simp add: shorter_def)
            next
              case colon: True
              have l4: "length rest2 < length bs" "2 * length rest2 + 1 \<le> n"
                using l3 colon_Cons fuel by auto
              from V [OF l4(2)] obtain r where
                r: "parse_value n options (p2 + 1) rest2 = Some r" "shorter r rest2"
                by blast
              show ?thesis
              proof (cases r)
                case (Failed e m)
                with ws Cons start key ws2 colon_Cons colon r(1) show ?thesis
                  by (simp add: shorter_def)
              next
                case val: (Scanned v p3 rest3)
                have l5: "length rest3 < length rest2"
                  using r(2) val by (simp add: shorter_def)
                obtain p4 bs4 where ws4: "skip_whitespace p3 rest3 = (p4, bs4)"
                  by (cases "skip_whitespace p3 rest3")
                have l6: "length bs4 < length rest2"
                  using skip_whitespace_length [OF ws4] l5 by simp
                show ?thesis
                proof (cases bs4)
                  case Nil
                  with ws Cons start key ws2 colon_Cons colon r(1) val ws4 show ?thesis
                    by (simp add: shorter_def)
                next
                  case last_Cons: (Cons ch4 rest4)
                  have l7: "length rest4 < length bs" "2 * length rest4 + 2 \<le> n"
                    using l6 l4 last_Cons by auto
                  consider (comma) "ch4 = CHR '',''" | (close) "ch4 \<noteq> CHR '',''" "ch4 = CHR ''}''"
                    | (other) "ch4 \<noteq> CHR '',''" "ch4 \<noteq> CHR ''}''"
                    by blast
                  then show ?thesis
                  proof cases
                    case comma
                    from M [OF l7(2)] obtain r' where
                      r': "parse_members n options (acc @ [(k, v)]) (p4 + 1) rest4 = Some r'"
                        "shorter r' rest4"
                      by blast
                    have "shorter r' bs"
                      using r'(2) l7(1) by (auto intro: shorter_mono)
                    with ws Cons start key ws2 colon_Cons colon r(1) val ws4 last_Cons comma r'(1)
                    show ?thesis by simp
                  next
                    case close
                    with ws Cons start key ws2 colon_Cons colon r(1) val ws4 last_Cons l7(1)
                    show ?thesis by (simp add: shorter_def)
                  next
                    case other
                    with ws Cons start key ws2 colon_Cons colon r(1) val ws4 last_Cons
                    show ?thesis by (simp add: shorter_def)
                  qed
                qed
              qed
            qed
          qed
        qed
      qed
    qed
  qed
  ultimately show ?case by blast
qed

lemma parse_returns: "\<exists>r. parse src options = Some r"
proof -
  from descent_returns [of "2 * length (source_bytes src) + 1" options]
  obtain r where
    "parse_value (2 * length (source_bytes src) + 1) options 0 (source_bytes src) = Some r"
    by blast
  then show ?thesis
    by (simp add: parse_def Let_def split: scan.splits prod.splits list.splits)
qed

section \<open>The relaxations of the grammar\<close>

lemma plus_default:
  "parse (source_from_string name ''+1e5'') default_options =
     Some (Inl (parse_error_new
       \<lparr>source = Some (source_from_string name ''+1e5''), char_index = 0\<rparr>
       ''explicit plus sign is not allowed''))"
  by (simp add: scanner_defs)

lemma plus_relaxed:
  "parse (source_from_string name ''+1e5'') relaxed_options = Some (Inr (Number_value ''+1e5''))"
  by (simp add: scanner_defs)

lemma single_default:
  "parse (source_from_string name (squote # ''single'' @ [squote])) default_options =
     Some (Inl (parse_error_new
       \<lparr>source = Some (source_from_string name (squote # ''single'' @ [squote])),
        char_index = 0\<rparr>
       ''single-quoted string is not allowed''))"
  by (simp add: scanner_defs)

lemma single_relaxed:
  "parse (source_from_string name (squote # ''single'' @ [squote])) relaxed_options =
     Some (Inr (String_value (map of_char ''single'')))"
  by (simp add: scanner_defs)

lemma dot_default:
  "parse (source_from_string name ''.5'') default_options =
     Some (Inl (parse_error_new
       \<lparr>source = Some (source_from_string name ''.5''), char_index = 0\<rparr>
       ''number is not allowed to start with a dot''))"
  by (simp add: scanner_defs)

lemma dot_relaxed:
  "parse (source_from_string name ''.5'') relaxed_options = Some (Inr (Number_value ''.5''))"
  by (simp add: scanner_defs)

lemma nan_default:
  "parse (source_from_string name ''NaN'') default_options =
     Some (Inl (parse_error_new
       \<lparr>source = Some (source_from_string name ''NaN''), char_index = 0\<rparr>
       ''Infinity and NaN are not allowed''))"
  by (simp add: scanner_defs)

lemma nan_relaxed:
  "parse (source_from_string name ''NaN'') relaxed_options = Some (Inr (Number_value ''NaN''))"
  by (simp add: scanner_defs)

text \<open>C1: with the default options (all four flags false) \<open>parse\<close> raises a parse error on
  each of the documents \<open>+1e5\<close>, \<open>'single'\<close>, \<open>.5\<close> and \<open>NaN\<close>, whatever the file name of the
  source, and with the relaxed options (all four flags true) it returns a value on each of
  them.\<close>

theorem parse_default_fails_relaxed_succeeds:
  "default_options =
     \<lparr>allow_infinity_and_nan = False, allow_explicit_plus_sign_in_mantissa = False,
      allow_single_quote_strings = False, allow_number_to_start_with_dot = False\<rparr>
   \<and> relaxed_options =
     \<lparr>allow_infinity_and_nan = True, allow_explicit_plus_sign_in_mantissa = True,
      allow_single_quote_strings = True, allow_number_to_start_with_dot = True\<rparr>
   \<and> parse (source_from_string name ''+1e5'') default_options =
     Some (Inl (parse_error_new
       \<lparr>source = Some (source_from_string name ''+1e5''), char_index = 0\<rparr>
       ''explicit plus sign is not allowed''))
   \<and> parse (source_from_string name (squote # ''single'' @ [squote])) default_options =
     Some (Inl (parse_error_new
       \<lparr>source = Some (source_from_string name (squote # ''single'' @ [squote])),
        char_index = 0\<rparr>
       ''single-quoted string is not allowed''))
   \<and> parse (source_from_string name ''.5'') default_options =
     Some (Inl (parse_error_new
       \<lparr>source = Some (source_from_string name ''.5''), char_index = 0\<rparr>
       ''number is not allowed to start with a dot''))
   \<and> parse (source_from_string name ''NaN'') default_options =
     Some (Inl (parse_error_new
       \<lparr>source = Some (source_from_string name ''NaN''), char_index = 0\<rparr>
       ''Infinity and NaN are not allowed''))
   \<and> parse (source_from_string name ''+1e5'') relaxed_options =
     Some (Inr (Number_value ''+1e5''))
   \<and> parse (source_from_string name (squote # ''single'' @ [squote])) relaxed_options =
     Some (Inr (String_value (map of_char ''single'')))
   \<and> parse (source_from_string name ''.5'') relaxed_options = Some (Inr (Number_value ''.5''))
   \<and> parse (source_from_string name ''NaN'') relaxed_options = Some (Inr (Number_value ''NaN''))"
  unfolding plus_default plus_relaxed single_default single_relaxed dot_default dot_relaxed
    nan_default nan_relaxed
  by (simp add: default_options_def relaxed_options_def)

section \<open>Lines and columns\<close>



text \<open>C5, as amended: the sequence that \<open>source::find_line_start_indexes\<close> returns for the
  first \<open>size\<close> bytes of a buffer, stored as \<open>line_start_indexes\<close> at construction, holds
  exactly the offsets that follow a newline byte, is strictly increasing, does not hold
  offset 0, and every entry is at most \<open>size\<close>; \<open>size\<close> itself is an entry exactly when the
  last byte is a newline.\<close>

theorem find_line_start_indexes_invariant:
  assumes "size_in \<le> length b"
  shows "set (find_line_start_indexes b size_in) =
           {j + 1 | j. j < size_in \<and> b ! j = newline}
         \<and> sorted_wrt (<) (find_line_start_indexes b size_in)
         \<and> 0 \<notin> set (find_line_start_indexes b size_in)
         \<and> (\<forall>e \<in> set (find_line_start_indexes b size_in). e \<le> size_in)
         \<and> (size_in \<in> set (find_line_start_indexes b size_in)) =
             (0 < size_in \<and> b ! (size_in - 1) = newline)
         \<and> line_start_indexes (source_from_buffer name (Some b) size_in) =
             find_line_start_indexes b size_in
         \<and> line_start_indexes (source_from_string name b) =
             find_line_start_indexes b (length b)"
proof -
  have len: "length (take size_in b) = size_in" using assms by simp
  have s: "set (find_line_start_indexes b size_in) =
           {j + 1 | j. j < size_in \<and> b ! j = newline}"
    unfolding find_line_start_indexes_def find_lines_from_set len by auto
  have last: "(size_in \<in> set (find_line_start_indexes b size_in)) =
             (0 < size_in \<and> b ! (size_in - 1) = newline)"
    unfolding s by (cases size_in) auto
  have "sorted_wrt (<) (find_line_start_indexes b size_in)"
    by (simp add: find_line_start_indexes_def find_lines_from_sorted)
  moreover have "0 \<notin> set (find_line_start_indexes b size_in)"
    unfolding s by simp
  moreover have "\<forall>e \<in> set (find_line_start_indexes b size_in). e \<le> size_in"
    unfolding s by auto
  ultimately show ?thesis
    using s last by (simp add: source_from_buffer_def source_from_string_def)
qed

text \<open>The theorem at a buffer of two lines that ends with a newline.\<close>

theorem find_line_start_indexes_invariant_witness:
  "(4::nat) \<le> length ''a\<newline>b\<newline>''
   \<and> find_line_start_indexes ''a\<newline>b\<newline>'' 4 = [2, 4]
   \<and> sorted_wrt (<) (find_line_start_indexes ''a\<newline>b\<newline>'' 4)
   \<and> 0 \<notin> set (find_line_start_indexes ''a\<newline>b\<newline>'' 4)
   \<and> 4 \<in> set (find_line_start_indexes ''a\<newline>b\<newline>'' 4)"
  using find_line_start_indexes_invariant [of 4 "''a\<newline>b\<newline>''" "''f''"]
  by (simp add: find_line_start_indexes_def newline_def)

text \<open>C5 as stated fails: a buffer that ends with a newline has its size as an entry.\<close>

theorem line_start_below_size_counterexample:
  "2 \<in> set (find_line_start_indexes ''a\<newline>'' (length ''a\<newline>''))
   \<and> \<not> (2 < length ''a\<newline>'')"
  by (simp add: find_line_start_indexes_def newline_def)

section \<open>Locations\<close>

text \<open>C7: a location without a source, the default-constructed one (no source, offset 0)
  included, has the zero line and start index and, for every tab size, the zero line and
  column.\<close>

theorem location_without_source_is_zero:
  "location_get_line_and_start_index \<lparr>source = None, char_index = i\<rparr> =
     \<lparr>line_and_index.line = 0, index = 0\<rparr>
   \<and> location_get_line_and_column \<lparr>source = None, char_index = i\<rparr> tab_size =
     \<lparr>line = 0, column = 0\<rparr>
   \<and> location_default = \<lparr>source = None, char_index = 0\<rparr>
   \<and> location_get_line_and_start_index location_default =
     \<lparr>line_and_index.line = 0, index = 0\<rparr>
   \<and> location_get_line_and_column location_default tab_size = \<lparr>line = 0, column = 0\<rparr>"
  by (simp add: location_get_line_and_start_index_def location_get_line_and_column_def
      location_default_def)

text \<open>C8: a source converts to true exactly when it has a contents buffer; a source built
  from a file name alone keeps the name and converts to false.\<close>

theorem source_bool_iff_contents:
  "source_bool s = (contents s \<noteq> None)
   \<and> \<not> source_bool (source_from_name name)
   \<and> file_name (source_from_name name) = name
   \<and> source_bool (source_from_buffer name buf size_in) = (buf \<noteq> None)
   \<and> source_bool (source_from_string name contents_in)"
  by (simp add: source_bool_def source_from_name_def source_from_buffer_def
      source_from_string_def)

text \<open>C10: \<open>location::to_string\<close> returns what \<open>location::append_to_string\<close> returns on the
  empty buffer with the default tab size 8: neither the buffer passed in nor the tab size
  passed in has any effect.\<close>

theorem location_to_string_ignores_buffer_and_tab_size:
  "location_to_string loc b t = location_append_to_string loc [] default_tab_size
   \<and> default_tab_size = 8
   \<and> location_to_string loc b t = location_to_string loc b' t'"
  by (simp add: location_to_string_def default_tab_size_def)

text \<open>C6: \<open>location::append_to_string\<close> appends \<open><unknown>\<close> when the location has no source
  or the source's file name is empty, and the file name otherwise; then a colon; then the
  line and the column of the location as \<open>line:column\<close>.\<close>

theorem location_append_to_string_format:
  "location_append_to_string loc buffer tab_size =
     buffer
     @ (case source loc of
          None \<Rightarrow> ''<unknown>''
        | Some s \<Rightarrow> if file_name s = [] then ''<unknown>'' else file_name s)
     @ '':''
     @ unsigned_digits (line (location_get_line_and_column loc tab_size))
     @ '':''
     @ unsigned_digits (column (location_get_line_and_column loc tab_size))"
  by (simp add: location_append_to_string_def line_and_column_append_to_string_def
      append_unsigned_integer_to_string_def Let_def split: option.split)

section \<open>Parse errors\<close>

text \<open>C3: the message of a \<open>parse_error\<close> built from a location and a message is fixed by
  the constructor: the rendering of the location as file name or \<open><unknown>\<close>, line and
  column, separated by colons, then a colon and a space, then the message.\<close>

theorem parse_error_what_format:
  "what (parse_error_new loc message) =
     ((case source loc of
          None \<Rightarrow> ''<unknown>''
        | Some s \<Rightarrow> if file_name s = [] then ''<unknown>'' else file_name s)
      @ '':''
      @ unsigned_digits (line (location_get_line_and_column loc 8))
      @ '':''
      @ unsigned_digits (column (location_get_line_and_column loc 8)))
     @ '': '' @ message"
  by (simp add: parse_error_new_def location_to_string_def default_tab_size_def
      location_append_to_string_def line_and_column_append_to_string_def
      append_unsigned_integer_to_string_def Let_def split: option.split)

text \<open>C4 fails on the code: the constructor does not store the location it is given. The
  member keeps the value of its default constructor, here for a location in a source
  named \<open>a.json\<close> at offset 3.\<close>

theorem parse_error_location_is_default:
  "location (parse_error_new
      \<lparr>source = Some (source_from_string ''a.json'' ''[1,''), char_index = 3\<rparr> ''m'') =
     \<lparr>source = None, char_index = 0\<rparr>
   \<and> location (parse_error_new
      \<lparr>source = Some (source_from_string ''a.json'' ''[1,''), char_index = 3\<rparr> ''m'') \<noteq>
     \<lparr>source = Some (source_from_string ''a.json'' ''[1,''), char_index = 3\<rparr>"
  by (simp add: parse_error_new_def location_default_def)

lemma trailing_comma:
  "parse (source_from_string name (''{'' @ [dquote] @ ''a'' @ [dquote] @ '':1,}''))
     default_options =
     Some (Inl (parse_error_new
       \<lparr>source = Some (source_from_string name (''{'' @ [dquote] @ ''a'' @ [dquote] @ '':1,}'')),
        char_index = 7\<rparr> ''missing member name''))"
  by (simp add: scanner_defs eval_nat_numeral)

text \<open>C9 fails on the code: on the document of an object with one member and a trailing
  comma the parser stops at offset 7, the closing brace, and builds the error from the
  location of that offset. The message carries the position, but the \<open>location\<close> member of
  the error is the default one, with offset 0.\<close>

theorem trailing_comma_error_location:
  "(''{'' @ [dquote] @ ''a'' @ [dquote] @ '':1,}'') ! 7 = CHR ''}''
   \<and> parse (source_from_string ''a.json'' (''{'' @ [dquote] @ ''a'' @ [dquote] @ '':1,}''))
       default_options =
     Some (Inl (parse_error_new
       \<lparr>source =
          Some (source_from_string ''a.json'' (''{'' @ [dquote] @ ''a'' @ [dquote] @ '':1,}'')),
        char_index = 7\<rparr> ''missing member name''))
   \<and> what (parse_error_new
       \<lparr>source =
          Some (source_from_string ''a.json'' (''{'' @ [dquote] @ ''a'' @ [dquote] @ '':1,}'')),
        char_index = 7\<rparr> ''missing member name'') = ''a.json:0:8: missing member name''
   \<and> char_index (location (parse_error_new
       \<lparr>source =
          Some (source_from_string ''a.json'' (''{'' @ [dquote] @ ''a'' @ [dquote] @ '':1,}'')),
        char_index = 7\<rparr> ''missing member name'')) = 0"
  unfolding trailing_comma
  by (simp add: parse_error_new_def location_default_def location_to_string_def
      location_append_to_string_def location_get_line_and_column_def
      source_get_line_and_column_def source_get_line_and_start_index_def
      line_and_column_append_to_string_def append_unsigned_integer_to_string_def
      source_from_string_def source_bytes_def find_line_start_indexes_def
      search_line_done unsigned_digits_small digit_char_def default_tab_size_def
      column_start_def column_base_def dquote_def tab_def newline_def Let_def)

end
